theory Spec2Isabelle
  imports Main "HOL-Library.Word"
begin

section \<open>Terminal messages and commands\<close>

text \<open>
  The program in \<^verbatim>\<open>main.go\<close> is a client of three libraries: the terminal runtime
  (messages, commands, the event loop), the form library (the two-field form) and the
  styling library. Their types are modelled as far as \<^verbatim>\<open>main.go\<close> looks into them.

  A key message is seen by \<^verbatim>\<open>Model.Update\<close> only through \<^verbatim>\<open>msg.String()\<close>: a key
  that carries runes prints as those runes, a named key prints as its name.
\<close>

datatype key = KeyRunes string | KeyEnter | KeyTab | KeyBackspace | KeyEsc | KeyCtrlC

fun key_String :: "key \<Rightarrow> string" where
  "key_String (KeyRunes r) = r"
| "key_String KeyEnter = ''enter''"
| "key_String KeyTab = ''tab''"
| "key_String KeyBackspace = ''backspace''"
| "key_String KeyEsc = ''esc''"
| "key_String KeyCtrlC = ''ctrl+c''"

text \<open>Go's \<^verbatim>\<open>int\<close> is 64 bits wide on the supported platforms; it is read signed.\<close>

type_synonym go_int = "64 word"

datatype msg = WindowSizeMsg go_int go_int | KeyMsg key | OtherMsg

text \<open>
  A command is what \<^verbatim>\<open>Update\<close> hands back to the runtime: \<^verbatim>\<open>tea.Quit\<close>, a command
  of the form library (opaque to \<^verbatim>\<open>main.go\<close>), or \<^verbatim>\<open>tea.Batch\<close> of several.
\<close>

datatype cmd = Redraw | Quit | Batch "cmd list"

fun quits :: "cmd \<Rightarrow> bool" where
  "quits Quit = True"
| "quits Redraw = False"
| "quits (Batch cs) = list_ex quits cs"

section \<open>Styles\<close>

datatype Color = AdaptiveColor string string | ANSIColor string

definition red :: Color where
  "red = AdaptiveColor ''#FE5F86'' ''#FE5F86''"

definition indigo :: Color where
  "indigo = AdaptiveColor ''#5A56E0'' ''#7571F9''"

definition green :: Color where
  "green = AdaptiveColor ''#02BA84'' ''#02BF87''"

datatype Renderer = DefaultRenderer

datatype Border = RoundedBorder

record Style =
  renderer :: Renderer
  paddingTop :: go_int
  paddingRight :: go_int
  paddingBottom :: go_int
  paddingLeft :: go_int
  marginTop :: go_int
  marginRight :: go_int
  marginBottom :: go_int
  marginLeft :: go_int
  border :: "Border option"
  borderForeground :: "Color option"
  foreground :: "Color option"
  bold :: bool

definition NewStyle :: "Renderer \<Rightarrow> Style" where
  "NewStyle lg = \<lparr>renderer = lg,
     paddingTop = 0, paddingRight = 0, paddingBottom = 0, paddingLeft = 0,
     marginTop = 0, marginRight = 0, marginBottom = 0, marginLeft = 0,
     border = None, borderForeground = None, foreground = None, bold = False\<rparr>"

text \<open>\<^verbatim>\<open>Padding\<close> with four arguments takes top, right, bottom, left.\<close>

definition Padding :: "go_int \<Rightarrow> go_int \<Rightarrow> go_int \<Rightarrow> go_int \<Rightarrow> Style \<Rightarrow> Style" where
  "Padding t r b l s =
     s\<lparr>paddingTop := t, paddingRight := r, paddingBottom := b, paddingLeft := l\<rparr>"

text \<open>
  The horizontal frame of a style is its left and right margins, paddings and border
  edges; an edge of the rounded border is one cell wide.
\<close>

definition GetHorizontalMargins :: "Style \<Rightarrow> go_int" where
  "GetHorizontalMargins s = marginLeft s + marginRight s"

definition GetHorizontalPadding :: "Style \<Rightarrow> go_int" where
  "GetHorizontalPadding s = paddingLeft s + paddingRight s"

definition GetHorizontalBorderSize :: "Style \<Rightarrow> go_int" where
  "GetHorizontalBorderSize s = (case border s of None \<Rightarrow> 0 | Some RoundedBorder \<Rightarrow> 2)"

definition GetHorizontalFrameSize :: "Style \<Rightarrow> go_int" where
  "GetHorizontalFrameSize s =
     GetHorizontalMargins s + GetHorizontalPadding s + GetHorizontalBorderSize s"

record Styles =
  Base :: Style
  HeaderText :: Style
  Status :: Style
  StatusHeader :: Style
  Highlight :: Style
  ErrorHeaderText :: Style
  Help :: Style

definition NewStyles :: "Renderer \<Rightarrow> Styles" where
  "NewStyles lg =
     (let base = Padding 1 4 0 1 (NewStyle lg);
          headerText = Padding 0 1 0 2 ((NewStyle lg)\<lparr>foreground := Some indigo, bold := True\<rparr>)
      in \<lparr>Base = base,
          HeaderText = headerText,
          Status = (NewStyle lg)\<lparr>border := Some RoundedBorder, borderForeground := Some indigo,
                     paddingLeft := 1, marginTop := 1\<rparr>,
          StatusHeader = (NewStyle lg)\<lparr>foreground := Some green, bold := True\<rparr>,
          Highlight = (NewStyle lg)\<lparr>foreground := Some (ANSIColor ''212'')\<rparr>,
          ErrorHeaderText = headerText\<lparr>foreground := Some red\<rparr>,
          Help = (NewStyle lg)\<lparr>foreground := Some (ANSIColor ''240'')\<rparr>\<rparr>)"

section \<open>The form library, as \<^verbatim>\<open>main.go\<close> uses it\<close>

text \<open>
  \<^verbatim>\<open>NewModel\<close> declares two fields. Each is bound with \<^verbatim>\<open>Value(&summary)\<close> or
  \<^verbatim>\<open>Value(&description)\<close> to a package-level string, which only the form writes.
  Neither declaration calls \<^verbatim>\<open>Validate\<close>: \<open>fd_validate\<close> is \<open>None\<close> for both.
\<close>

datatype field_kind = Input | Text

datatype global = summary | description

record FieldDecl =
  fd_kind :: field_kind
  fd_title :: string
  fd_value :: global
  fd_validate :: "(string \<Rightarrow> string option) option"

record FormOpts =
  WithWidth :: go_int
  WithShowHelp :: bool
  WithShowErrors :: bool

datatype huh_FormState = StateNormal | StateCompleted | StateAborted

text \<open>
  \<^verbatim>\<open>form.Update\<close> returns a \<^verbatim>\<open>tea.Model\<close>, which \<^verbatim>\<open>Model.Update\<close> type-asserts
  to \<^verbatim>\<open>*huh.Form\<close>.
\<close>

datatype 'f tea_Model = HuhForm 'f | OtherModel

text \<open>
  The operations of the form that \<^verbatim>\<open>main.go\<close> calls are parameters of the model:
  \<open>form_ShortHelp\<close> stands for \<^verbatim>\<open>m.form.Help().ShortHelpView(m.form.KeyBinds())\<close>,
  \<open>form_Value\<close> for the content of the bound package-level string.
\<close>

record 'f huh =
  NewForm :: "FieldDecl list \<Rightarrow> FormOpts \<Rightarrow> 'f"
  form_Update :: "'f \<Rightarrow> msg \<Rightarrow> 'f tea_Model \<times> cmd"
  form_State :: "'f \<Rightarrow> huh_FormState"
  form_Errors :: "'f \<Rightarrow> string list"
  form_View :: "'f \<Rightarrow> string"
  form_ShortHelp :: "'f \<Rightarrow> string"
  form_Value :: "'f \<Rightarrow> global \<Rightarrow> string"

section \<open>The model and its update\<close>

definition maxWidth :: go_int where
  "maxWidth = 160"

datatype state = statusNormal | stateDone

record 'f Model =
  state :: state
  lg :: Renderer
  styles :: Styles
  form :: 'f
  width :: go_int

definition NewModel :: "'f huh \<Rightarrow> 'f Model" where
  "NewModel H =
     \<lparr>state = statusNormal,
      lg = DefaultRenderer,
      styles = NewStyles DefaultRenderer,
      form = NewForm H
        [\<lparr>fd_kind = Input, fd_title = ''Summary:'', fd_value = summary, fd_validate = None\<rparr>,
         \<lparr>fd_kind = Text, fd_title = ''Description:'', fd_value = description,
          fd_validate = None\<rparr>]
        \<lparr>WithWidth = 45, WithShowHelp = False, WithShowErrors = False\<rparr>,
      width = maxWidth\<rparr>"

text \<open>Go's built-in \<^verbatim>\<open>min\<close> on two signed integers.\<close>

definition go_min :: "go_int \<Rightarrow> go_int \<Rightarrow> go_int" where
  "go_min a b = (if a <s b then a else b)"

text \<open>Lines 122 to 135 of \<^verbatim>\<open>Update\<close>: the message goes to the form.\<close>

definition process_form :: "'f huh \<Rightarrow> 'f Model \<Rightarrow> msg \<Rightarrow> 'f Model \<times> cmd" where
  "process_form H m e =
     (let (fm, c) = form_Update H (form m) e;
          (m1, cmds) = (case fm of HuhForm f \<Rightarrow> (m\<lparr>form := f\<rparr>, [c]) | OtherModel \<Rightarrow> (m, []));
          cmds1 = (if form_State H (form m1) = StateCompleted then cmds @ [Quit] else cmds)
      in (m1, Batch cmds1))"

fun Update :: "'f huh \<Rightarrow> 'f Model \<Rightarrow> msg \<Rightarrow> 'f Model \<times> cmd" where
  "Update H m (WindowSizeMsg w h) =
     process_form H
       (m\<lparr>width := go_min w maxWidth - GetHorizontalFrameSize (Base (styles m))\<rparr>)
       (WindowSizeMsg w h)"
| "Update H m (KeyMsg k) =
     (if key_String k = ''esc'' \<or> key_String k = ''ctrl+c'' \<or> key_String k = ''q''
      then (m, Quit)
      else process_form H m (KeyMsg k))"
| "Update H m OtherMsg = process_form H m OtherMsg"

text \<open>
  Modelled from the spec: the event loop of the terminal runtime (\<^verbatim>\<open>tea.Program.Run\<close>,
  not in \<^verbatim>\<open>src/\<close>). Events are processed one at a time, in the order received; the loop
  stops at the first termination signal and hands back the final model. While no event
  has produced the signal the program is still waiting: \<open>None\<close>.
\<close>

fun run :: "'f huh \<Rightarrow> 'f Model \<Rightarrow> msg list \<Rightarrow> 'f Model option" where
  "run H m [] = None"
| "run H m (e # es) =
     (case Update H m e of (m1, c) \<Rightarrow> if quits c then Some m1 else run H m1 es)"

section \<open>The view\<close>

text \<open>
  What the styling library draws (colours, padding, the fill of a line) is not looked
  into: \<^verbatim>\<open>Style.Render\<close> and \<^verbatim>\<open>lipgloss.PlaceHorizontal\<close> are parameters.
\<close>

datatype Position = Left | Center | Right

datatype WhitespaceOption = WithWhitespaceChars string | WithWhitespaceForeground Color

record lipgloss =
  Render :: "Style \<Rightarrow> string \<Rightarrow> string"
  PlaceHorizontal :: "go_int \<Rightarrow> Position \<Rightarrow> string \<Rightarrow> WhitespaceOption list \<Rightarrow> string"

definition nl :: string where
  "nl = [CHR 0x0A]"

text \<open>An error of the form is kept as its message, what \<^verbatim>\<open>err.Error()\<close> returns.\<close>

definition errorView :: "'f huh \<Rightarrow> 'f Model \<Rightarrow> string" where
  "errorView H m = foldl (\<lambda>s err. s @ err) [] (form_Errors H (form m))"

definition appBoundaryView :: "lipgloss \<Rightarrow> 'f Model \<Rightarrow> string \<Rightarrow> string" where
  "appBoundaryView L m text =
     PlaceHorizontal L (width m) Left (Render L (HeaderText (styles m)) text)
       [WithWhitespaceChars ''/'', WithWhitespaceForeground indigo]"

definition appErrorBoundaryView :: "lipgloss \<Rightarrow> 'f Model \<Rightarrow> string \<Rightarrow> string" where
  "appErrorBoundaryView L m text =
     PlaceHorizontal L (width m) Left (Render L (ErrorHeaderText (styles m)) text)
       [WithWhitespaceChars ''/'', WithWhitespaceForeground red]"

text \<open>The \<^verbatim>\<open>switch\<close> of \<^verbatim>\<open>View\<close> has a \<^verbatim>\<open>default\<close> branch only.\<close>

definition View :: "lipgloss \<Rightarrow> 'f huh \<Rightarrow> 'f Model \<Rightarrow> string" where
  "View L H m =
     (let s = styles m;
          errors = form_Errors H (form m);
          header0 = appBoundaryView L m ''Create a JIRA Ticket'';
          header = (if length errors > 0 then appErrorBoundaryView L m (errorView H m)
                    else header0);
          footer0 = appBoundaryView L m (form_ShortHelp H (form m));
          footer = (if length errors > 0 then appErrorBoundaryView L m [] else footer0)
      in Render L (Base s) (header @ nl @ form_View H (form m) @ nl @ nl @ footer))"

section \<open>The program\<close>

datatype any = AString string | AInt int | ABool bool | AList "any list"
  | AMap "(string \<times> any) list"

type_synonym MarshalMap = "string \<rightharpoonup> any"

record CreateIssueConfig =
  cfg_Project :: string
  CustomFields :: MarshalMap

record Config =
  JiraUrl :: string
  Username :: string
  ApiKey :: string
  CreateIssue :: CreateIssueConfig

record BasicAuthTransport =
  bat_Username :: string
  bat_Password :: string

record Client =
  transport :: BasicAuthTransport
  baseURL :: string

record IssueType =
  Name :: string

record Project =
  project_Key :: string

record IssueFields =
  Description :: string
  Type :: IssueType
  Project :: Project
  Summary :: string
  Unknowns :: MarshalMap

record Issue =
  issue_Key :: string
  issue_Self :: string
  Fields :: "IssueFields option"

text \<open>
  Everything \<^verbatim>\<open>main\<close> asks of its surroundings: the home directory, the file system,
  the YAML parser, the terminal (whether the runtime fails, and otherwise the events the
  operator produces) and the Jira client. An error is kept as its message.
\<close>

record env =
  UserHomeDir :: "string + string"
  Join :: "string list \<Rightarrow> string"
  ReadFile :: "string \<Rightarrow> string + string"
  Unmarshal :: "string \<Rightarrow> string + Config"
  Run_error :: "string option"
  events :: "msg list"
  NewClient :: "BasicAuthTransport \<Rightarrow> string \<Rightarrow> Client option"
  IssueCreate :: "Client \<Rightarrow> Issue \<Rightarrow> string + Issue"

datatype exit_status = Exited nat | Panicked string

text \<open>What a run of the process leaves behind; \<open>submitted\<close> lists the calls of
  \<^verbatim>\<open>jiraClient.Issue.Create\<close> in order.\<close>

record result =
  stdout :: string
  exit :: exit_status
  submitted :: "(Client \<times> Issue) list"

definition oh_no :: "string \<Rightarrow> result" where
  "oh_no err = \<lparr>stdout = ''Oh no: '' @ err @ nl, exit = Exited 1, submitted = []\<rparr>"

text \<open>Lines 188 to 205 of \<^verbatim>\<open>main\<close>: the settings are read and parsed.\<close>

definition load :: "env \<Rightarrow> string + Config" where
  "load E =
     (case UserHomeDir E of Inl err \<Rightarrow> Inl err
      | Inr dirname \<Rightarrow>
          (case ReadFile E (Join E [dirname, ''.config'', ''lazyjira'', ''config.yaml'']) of
             Inl err \<Rightarrow> Inl err
           | Inr f \<Rightarrow> Unmarshal E f))"

text \<open>
  \<^verbatim>\<open>tea.NewProgram(model).Run()\<close>: an error when the runtime fails, otherwise the
  final model of the event loop, if the loop ends.
\<close>

definition Run :: "env \<Rightarrow> 'f huh \<Rightarrow> 'f Model \<Rightarrow> (string + 'f Model) option" where
  "Run E H m =
     (case Run_error E of Some err \<Rightarrow> Some (Inl err)
      | None \<Rightarrow> map_option Inr (run H m (events E)))"

text \<open>
  \<^verbatim>\<open>main\<close> drops the model that \<^verbatim>\<open>Run\<close> returns (\<^verbatim>\<open>_, err2 :=\<close>) and consults
  neither its state nor the form's. It reads the package-level strings \<^verbatim>\<open>summary\<close>
  and \<^verbatim>\<open>description\<close>, which the form has written through the pointers bound in
  \<^verbatim>\<open>NewModel\<close>; their content when the loop has ended is \<open>form_Value\<close> of the final
  form. The error of \<^verbatim>\<open>jira.NewClient\<close> is dropped too; without a client the call
  through it panics. The result is \<open>None\<close> while the event loop has not ended.
\<close>

definition main :: "env \<Rightarrow> 'f huh \<Rightarrow> result option" where
  "main E H =
     (case load E of Inl err \<Rightarrow> Some (oh_no err)
      | Inr c \<Rightarrow>
          (case Run E H (NewModel H) of None \<Rightarrow> None
           | Some (Inl err2) \<Rightarrow> Some (oh_no err2)
           | Some (Inr final) \<Rightarrow>
               (let tp = \<lparr>bat_Username = Username c, bat_Password = ApiKey c\<rparr>;
                    i = \<lparr>issue_Key = [], issue_Self = [],
                         Fields = Some
                           \<lparr>Description = form_Value H (form final) description,
                            Type = \<lparr>Name = ''Bug''\<rparr>,
                            Project = \<lparr>project_Key = cfg_Project (CreateIssue c)\<rparr>,
                            Summary = form_Value H (form final) summary,
                            Unknowns = CustomFields (CreateIssue c)\<rparr>\<rparr>
                in case NewClient E tp (JiraUrl c) of
                     None \<Rightarrow>
                       Some \<lparr>stdout = [], exit = Panicked ''nil pointer dereference'',
                             submitted = []\<rparr>
                   | Some jiraClient \<Rightarrow>
                       (case IssueCreate E jiraClient i of
                          Inl err \<Rightarrow>
                            Some \<lparr>stdout = [], exit = Panicked err,
                                  submitted = [(jiraClient, i)]\<rparr>
                        | Inr issue \<Rightarrow>
                            Some \<lparr>stdout = issue_Key issue @ '': '' @ issue_Self issue @ nl,
                                  exit = Exited 0,
                                  submitted = [(jiraClient, i)]\<rparr>))))"

section \<open>The form engine\<close>

text \<open>
  The form's own update step is code of the form library and is not in \<^verbatim>\<open>src/\<close>; the
  specification describes it in its section 4.1. The engine below follows that
  description, for a sequence of fields of any length, and is one instance of the
  parameter \<open>'f huh\<close>.
\<close>

text \<open>Modelled from the spec: the data model of its section 3, \<^verbatim>\<open>FormState\<close> with its
  terminal flag and one \<^verbatim>\<open>FieldSpec\<close> per collectible value (types of the form library,
  not in \<^verbatim>\<open>src/\<close>). A field also keeps the package-level string it is bound to, its
  declared constraint, if any, and its validation error, if any.\<close>

datatype terminal = active | completed | cancelled

record FieldSpec =
  label :: string
  kind :: field_kind
  buffer :: string
  binding :: global
  constraint :: "(string \<Rightarrow> string option) option"
  field_error :: "string option"

record FormState =
  focus :: nat
  fieldseq :: "FieldSpec list"
  terminal :: terminal

text \<open>Modelled from the spec: validation of a field against its declared constraints (the
  field's validator in the form library, not in \<^verbatim>\<open>src/\<close>). A field with no declared
  constraint validates; a declared constraint returns the message of its violation.
  \<open>checked\<close> attaches the outcome to the field.\<close>

definition validate :: "FieldSpec \<Rightarrow> string option" where
  "validate f = (case constraint f of None \<Rightarrow> None | Some check \<Rightarrow> check (buffer f))"

definition checked :: "FieldSpec \<Rightarrow> FieldSpec" where
  "checked f = f\<lparr>field_error := validate f\<rparr>"

text \<open>Modelled from the spec: \<^verbatim>\<open>initialize() -> FormState\<close>, the initial active state
  with empty fields (\<^verbatim>\<open>huh.NewForm\<close>, not in \<^verbatim>\<open>src/\<close>).\<close>

definition initialize :: "FieldDecl list \<Rightarrow> FormOpts \<Rightarrow> FormState" where
  "initialize decls opts =
     \<lparr>focus = 0,
      fieldseq = map (\<lambda>d. \<lparr>label = fd_title d, kind = fd_kind d, buffer = [],
                          binding = fd_value d, constraint = fd_validate d,
                          field_error = None\<rparr>) decls,
      terminal = active\<rparr>"

text \<open>Modelled from the spec: a field-edit event mutates the current field's text buffer;
  a violated constraint attaches a validation error to the field and keeps it active
  (the field's own update in the form library, not in \<^verbatim>\<open>src/\<close>).\<close>

definition edit :: "(string \<Rightarrow> string) \<Rightarrow> FormState \<Rightarrow> FormState" where
  "edit change s =
     (if focus s < length (fieldseq s)
      then s\<lparr>fieldseq := (fieldseq s)
               [focus s := checked ((fieldseq s ! focus s)\<lparr>buffer := change (buffer (fieldseq s ! focus s))\<rparr>)]\<rparr>
      else s)"

text \<open>Modelled from the spec: the position of the first invalid field, to which focus
  returns when the last advance finds one (part of the form library, not in \<^verbatim>\<open>src/\<close>).\<close>

fun first_invalid :: "FieldSpec list \<Rightarrow> nat option" where
  "first_invalid [] = None"
| "first_invalid (f # fs) =
     (if validate f \<noteq> None then Some 0 else map_option Suc (first_invalid fs))"

text \<open>Modelled from the spec: a field-advance event is accepted only if the current
  field's validation passes; on success focus moves to the next field. Advancing from the
  last field completes the form only when every field validates; otherwise focus returns
  to the first invalid field and the errors are shown (the form library's handling of
  the next-field key, not in \<^verbatim>\<open>src/\<close>).\<close>

definition advance :: "FormState \<Rightarrow> FormState" where
  "advance s =
     (if focus s < length (fieldseq s) \<and> validate (fieldseq s ! focus s) \<noteq> None
      then s\<lparr>fieldseq := (fieldseq s)[focus s := checked (fieldseq s ! focus s)]\<rparr>
      else if focus s + 1 < length (fieldseq s)
      then s\<lparr>fieldseq := (fieldseq s)[focus s := checked (fieldseq s ! focus s)],
              focus := focus s + 1\<rparr>
      else (case first_invalid (fieldseq s) of
              None \<Rightarrow> s\<lparr>fieldseq := map checked (fieldseq s), terminal := completed\<rparr>
            | Some i \<Rightarrow> s\<lparr>fieldseq := map checked (fieldseq s), focus := i\<rparr>))"

text \<open>Modelled from the spec: \<^verbatim>\<open>handleEvent(state, event)\<close>, which returns the new
  state with a render command or the termination signal (\<^verbatim>\<open>huh.Form.Update\<close>, not in
  \<^verbatim>\<open>src/\<close>). A terminal state has no transitions. A resize causes no transition of
  the form; a cancellation key leads to \<open>cancelled\<close> whatever the field or its
  validation state.\<close>

fun handleEvent :: "FormState \<Rightarrow> msg \<Rightarrow> FormState \<times> cmd" where
  "handleEvent s e =
     (if terminal s \<noteq> active then (s, Redraw)
      else case e of
        WindowSizeMsg w h \<Rightarrow> (s, Redraw)
      | OtherMsg \<Rightarrow> (s, Redraw)
      | KeyMsg KeyEsc \<Rightarrow> (s\<lparr>terminal := cancelled\<rparr>, Quit)
      | KeyMsg KeyCtrlC \<Rightarrow> (s\<lparr>terminal := cancelled\<rparr>, Quit)
      | KeyMsg (KeyRunes r) \<Rightarrow> (edit (\<lambda>b. b @ r) s, Redraw)
      | KeyMsg KeyBackspace \<Rightarrow> (edit butlast s, Redraw)
      | KeyMsg KeyEnter \<Rightarrow>
          (let s1 = advance s in (s1, if terminal s1 = completed then Quit else Redraw))
      | KeyMsg KeyTab \<Rightarrow>
          (let s1 = advance s in (s1, if terminal s1 = completed then Quit else Redraw)))"

text \<open>Modelled from the spec: what the form reports of itself, its state under the names
  \<^verbatim>\<open>main.go\<close> compares it with and the validation errors its fields carry
  (\<^verbatim>\<open>form.State\<close> and \<^verbatim>\<open>form.Errors()\<close> of the form library, not in \<^verbatim>\<open>src/\<close>).\<close>

definition huh_State :: "terminal \<Rightarrow> huh_FormState" where
  "huh_State t = (case t of active \<Rightarrow> StateNormal | completed \<Rightarrow> StateCompleted
                  | cancelled \<Rightarrow> StateAborted)"

definition errors_of :: "FormState \<Rightarrow> string list" where
  "errors_of s = concat (map (\<lambda>f. case field_error f of None \<Rightarrow> [] | Some e \<Rightarrow> [e]) (fieldseq s))"

text \<open>Modelled from the spec: the collected value of a field (the write through the
  pointer given to \<^verbatim>\<open>Value\<close>, done by the form library, not in \<^verbatim>\<open>src/\<close>). The text
  of a bound package-level string is the buffer of the field bound to it.\<close>

definition value_of :: "FormState \<Rightarrow> global \<Rightarrow> string" where
  "value_of s g = (case filter (\<lambda>f. binding f = g) (fieldseq s) of [] \<Rightarrow> [] | f # _ \<Rightarrow> buffer f)"

text \<open>Modelled from the spec: \<^verbatim>\<open>render(state)\<close> for the fields (\<^verbatim>\<open>form.View()\<close> of
  the form library, not in \<^verbatim>\<open>src/\<close>). The specification leaves the layout open; here
  it is one line of label and buffer per field.\<close>

definition fields_view :: "FormState \<Rightarrow> string" where
  "fields_view s = concat (map (\<lambda>f. label f @ '' '' @ buffer f @ nl) (fieldseq s))"

text \<open>Modelled from the spec: the engine as an instance of the form library's interface
  (not in \<^verbatim>\<open>src/\<close>); the key help is a fixed line.\<close>

definition spec_engine :: "FormState huh" where
  "spec_engine =
     \<lparr>NewForm = initialize,
      form_Update = (\<lambda>s e. case handleEvent s e of (s1, c) \<Rightarrow> (HuhForm s1, c)),
      form_State = (\<lambda>s. huh_State (terminal s)),
      form_Errors = errors_of,
      form_View = fields_view,
      form_ShortHelp = (\<lambda>s. ''enter next''),
      form_Value = value_of\<rparr>"

text \<open>Typing a text is one key message for each of its characters.\<close>

definition typing :: "string \<Rightarrow> msg list" where
  "typing text = map (\<lambda>c. KeyMsg (KeyRunes [c])) text"

section \<open>Concrete instances\<close>

text \<open>A renderer that draws the text as it is, for a terminal without colour or
  decoration.\<close>

definition plain_lipgloss :: lipgloss where
  "plain_lipgloss = \<lparr>Render = (\<lambda>s text. text), PlaceHorizontal = (\<lambda>w pos text opts. text)\<rparr>"

text \<open>A settings record, and surroundings in which every step succeeds and the
  operator produces the given events.\<close>

definition demo_config :: Config where
  "demo_config =
     \<lparr>JiraUrl = ''https://jira.example.org'', Username = ''ada'', ApiKey = ''token'',
      CreateIssue = \<lparr>cfg_Project = ''OPS'',
                     CustomFields = [''customfield_10010'' \<mapsto> AString ''triage'']\<rparr>\<rparr>"

definition demo_env :: "msg list \<Rightarrow> env" where
  "demo_env evs =
     \<lparr>UserHomeDir = Inr ''/home/ada'',
      Join = (\<lambda>parts. concat (map (\<lambda>p. ''/'' @ p) parts)),
      ReadFile = (\<lambda>path. Inr ''jira_url: https://jira.example.org''),
      Unmarshal = (\<lambda>f. Inr demo_config),
      Run_error = None,
      events = evs,
      NewClient = (\<lambda>tp url. Some \<lparr>transport = tp, baseURL = url\<rparr>),
      IssueCreate = (\<lambda>client i. Inr (i\<lparr>issue_Key := ''OPS-1'',
                                          issue_Self := baseURL client @ ''/rest/api/2/issue/1''\<rparr>))\<rparr>"

text \<open>The events of the happy path, those of a cancellation after two typed characters,
  and those of a completed form with the same two characters as its title.\<close>

definition happy_events :: "msg list" where
  "happy_events =
     typing ''Bug in login'' @ [KeyMsg KeyEnter] @ typing ''Steps: ...'' @ [KeyMsg KeyEnter]"

definition cancel_events :: "msg list" where
  "cancel_events = typing ''Bu'' @ [KeyMsg KeyEsc]"

definition short_events :: "msg list" where
  "short_events = typing ''Bu'' @ [KeyMsg KeyEnter, KeyMsg KeyEnter]"



text \<open>A model whose title field does declare a constraint, which \<^verbatim>\<open>NewModel\<close> does
  not; and that model after an advance on the empty title.\<close>

definition required :: "string \<Rightarrow> string option" where
  "required b = (if b = [] then Some ''required'' else None)"

definition title_required :: "FormState huh \<Rightarrow> FormState Model" where
  "title_required H =
     (NewModel H)\<lparr>form :=
        initialize [\<lparr>fd_kind = Input, fd_title = ''Summary:'', fd_value = summary,
                     fd_validate = Some required\<rparr>,
                    \<lparr>fd_kind = Text, fd_title = ''Description:'', fd_value = description,
                     fd_validate = None\<rparr>]
          \<lparr>WithWidth = 45, WithShowHelp = False, WithShowErrors = False\<rparr>\<rparr>"

definition title_rejected :: "FormState Model" where
  "title_rejected = fst (Update spec_engine (title_required spec_engine) (KeyMsg KeyEnter))"

text \<open>The initial model with the focus on the body field, and with the form's flag set to
  \<open>cancelled\<close>.\<close>

definition at_body :: "FormState Model" where
  "at_body = (NewModel spec_engine)\<lparr>form := (form (NewModel spec_engine))\<lparr>focus := 1\<rparr>\<rparr>"

definition was_cancelled :: "FormState Model" where
  "was_cancelled =
     (NewModel spec_engine)\<lparr>form := (form (NewModel spec_engine))\<lparr>terminal := cancelled\<rparr>\<rparr>"

section \<open>Auxiliary facts\<close>

lemmas engine_defs = spec_engine_def initialize_def process_form_def edit_def advance_def
  checked_def validate_def huh_State_def errors_of_def value_of_def

lemma frame_size_Base: "GetHorizontalFrameSize (Base (NewStyles r)) = 5"
  by (simp add: GetHorizontalFrameSize_def GetHorizontalMargins_def GetHorizontalPadding_def
      GetHorizontalBorderSize_def NewStyles_def Padding_def NewStyle_def)

lemma go_min_above: "maxWidth <s w \<Longrightarrow> go_min w maxWidth = maxWidth"
  by (simp add: go_min_def maxWidth_def word_sless_alt)

lemma process_form_keeps:
  "width (fst (process_form H m e)) = width m"
  "state (fst (process_form H m e)) = state m"
  "styles (fst (process_form H m e)) = styles m"
  "lg (fst (process_form H m e)) = lg m"
  by (simp_all add: process_form_def Let_def split: prod.splits tea_Model.splits)

lemma process_form_engine:
  "form (fst (process_form spec_engine m e)) = fst (handleEvent (form m) e)"
  by (simp add: process_form_def spec_engine_def Let_def split: prod.splits)

lemma Update_engine_form:
  "form (fst (Update spec_engine m e)) = form m
   \<or> form (fst (Update spec_engine m e)) = fst (handleEvent (form m) e)"
  by (cases e) (simp_all add: process_form_engine)

lemma Update_enter_engine:
  "form (fst (Update spec_engine m (KeyMsg KeyEnter))) =
     (if terminal (form m) \<noteq> active then form m else advance (form m))"
  by (simp add: process_form_engine Let_def)

lemma advance_focus_moves:
  "focus (advance s) \<noteq> focus s \<or> terminal (advance s) \<noteq> terminal s \<Longrightarrow>
   focus s < length (fieldseq s) \<Longrightarrow> validate (fieldseq s ! focus s) = None"
  by (auto simp: advance_def split: if_splits option.splits)

lemma advance_rejected:
  "focus s < length (fieldseq s) \<Longrightarrow> validate (fieldseq s ! focus s) = Some err \<Longrightarrow>
   focus (advance s) = focus s \<and> terminal (advance s) = terminal s
   \<and> field_error (fieldseq (advance s) ! focus s) = Some err"
  by (simp add: advance_def checked_def)

lemma errorView_concat: "errorView H m = concat (form_Errors H (form m))"
proof -
  have "foldl (\<lambda>s err. s @ err) acc xs = acc @ concat xs" for acc and xs :: "string list"
    by (induction xs arbitrary: acc) simp_all
  then show ?thesis by (simp add: errorView_def)
qed

lemma demo_env_sel:
  "Run_error (demo_env evs) = None"
  "events (demo_env evs) = evs"
  "NewClient (demo_env evs) tp url = Some \<lparr>transport = tp, baseURL = url\<rparr>"
  "IssueCreate (demo_env evs) client i =
     Inr (i\<lparr>issue_Key := ''OPS-1'', issue_Self := baseURL client @ ''/rest/api/2/issue/1''\<rparr>)"
  by (simp_all add: demo_env_def)

lemma load_demo: "load (demo_env evs) = Inr demo_config"
  by (simp add: load_def demo_env_def)

lemma run_cancel_demo:
  "\<exists>m. run spec_engine (NewModel spec_engine) cancel_events = Some m
     \<and> value_of (form m) summary = ''Bu''
     \<and> value_of (form m) description = []
     \<and> terminal (form m) = active"
  by (simp add: cancel_events_def typing_def NewModel_def engine_defs)

lemma run_short:
  "\<exists>m. run spec_engine (NewModel spec_engine) short_events = Some m
     \<and> value_of (form m) summary = ''Bu''
     \<and> value_of (form m) description = []
     \<and> terminal (form m) = completed"
  by (simp add: short_events_def typing_def NewModel_def engine_defs)











lemma run_happy:
  "\<exists>m. run spec_engine (NewModel spec_engine) happy_events = Some m
     \<and> terminal (form m) = completed
     \<and> map buffer (fieldseq (form m)) = [''Bug in login'', ''Steps: ...'']
     \<and> value_of (form m) summary = ''Bug in login''
     \<and> value_of (form m) description = ''Steps: ...''"
  by (simp add: happy_events_def typing_def NewModel_def engine_defs)

lemma NewModel_engine_form:
  "focus (form (NewModel spec_engine)) = 0
   \<and> length (fieldseq (form (NewModel spec_engine))) = 2
   \<and> terminal (form (NewModel spec_engine)) = active"
  by (simp add: NewModel_def engine_defs)

lemma title_required_form:
  "focus (form (title_required spec_engine)) = 0
   \<and> length (fieldseq (form (title_required spec_engine))) = 2
   \<and> terminal (form (title_required spec_engine)) = active
   \<and> validate (fieldseq (form (title_required spec_engine)) ! 0) = Some ''required''"
  by (simp add: title_required_def engine_defs required_def)

lemma title_rejected_form:
  "errors_of (form title_rejected) = [''required'']
   \<and> fields_view (form title_rejected) = ''Summary: '' @ nl @ ''Description: '' @ nl"
  by (simp add: title_rejected_def title_required_def NewModel_def engine_defs required_def
      fields_view_def)

section \<open>Properties\<close>

subsection \<open>Cancellation and the submitter\<close>

text \<open>
  C1 requires that the issue-creation call is never reached after the operator cancels.
  At the run in which the settings load, the operator types two characters and presses
  escape, and the Jira client works, the event loop ends with the form still active,
  not completed, and \<^verbatim>\<open>main\<close> does call \<^verbatim>\<open>Issue.Create\<close>, once, with the partly
  typed summary: \<^verbatim>\<open>Run\<close> returns no error for a quit, and \<^verbatim>\<open>main\<close> looks at
  nothing else.
\<close>

theorem cancel_still_submits:
  "map_option (\<lambda>m. terminal (form m)) (run spec_engine (NewModel spec_engine) cancel_events)
     = Some active
   \<and> map_option (\<lambda>r. map (\<lambda>(client, i). map_option Summary (Fields i)) (submitted r))
       (main (demo_env cancel_events) spec_engine) = Some [Some ''Bu'']"
  using run_cancel_demo
  by (auto simp add: main_def load_demo Run_def demo_env_sel spec_engine_def)

subsection \<open>Advancing over a field\<close>

text \<open>
  C2, as the specification states it, fails at the initial model: \<^verbatim>\<open>NewModel\<close>
  declares no constraint on the title, so an advance on the empty title moves the focus
  to the body field and attaches no error.
\<close>

theorem empty_title_advances:
  "focus (form (fst (Update spec_engine (NewModel spec_engine) (KeyMsg KeyEnter)))) = 1
   \<and> errors_of (form (fst (Update spec_engine (NewModel spec_engine) (KeyMsg KeyEnter)))) = []"
  by (simp add: NewModel_def engine_defs)

text \<open>
  C2, amended: from the initial model with an empty title an advance is accepted (focus
  on the body field, no validation error, state still active), because no constraint is
  declared. In every model an advance moves the focus or leaves the active state only if
  the current field validates, and on a field whose constraint is violated it is
  rejected: the focus stays, the state stays active and the field carries the error.
\<close>

theorem advance_only_if_valid:
  "(focus (form (fst (Update spec_engine (NewModel spec_engine) (KeyMsg KeyEnter)))) = 1
    \<and> errors_of (form (fst (Update spec_engine (NewModel spec_engine) (KeyMsg KeyEnter)))) = []
    \<and> terminal (form (fst (Update spec_engine (NewModel spec_engine) (KeyMsg KeyEnter)))) = active)
   \<and> (focus (form m) < length (fieldseq (form m)) \<longrightarrow>
        (focus (form (fst (Update spec_engine m (KeyMsg KeyEnter)))) \<noteq> focus (form m)
         \<or> terminal (form (fst (Update spec_engine m (KeyMsg KeyEnter)))) \<noteq> terminal (form m) \<longrightarrow>
           validate (fieldseq (form m) ! focus (form m)) = None)
      \<and> (terminal (form m) = active \<and> validate (fieldseq (form m) ! focus (form m)) = Some err \<longrightarrow>
           focus (form (fst (Update spec_engine m (KeyMsg KeyEnter)))) = focus (form m)
           \<and> terminal (form (fst (Update spec_engine m (KeyMsg KeyEnter)))) = active
           \<and> field_error (fieldseq (form (fst (Update spec_engine m (KeyMsg KeyEnter)))) ! focus (form m))
               = Some err))"
proof -
  have first: "focus (form (fst (Update spec_engine (NewModel spec_engine) (KeyMsg KeyEnter)))) = 1
    \<and> errors_of (form (fst (Update spec_engine (NewModel spec_engine) (KeyMsg KeyEnter)))) = []
    \<and> terminal (form (fst (Update spec_engine (NewModel spec_engine) (KeyMsg KeyEnter)))) = active"
    by (simp add: NewModel_def engine_defs)
  have only_if: "validate (fieldseq (form m) ! focus (form m)) = None"
    if "focus (form m) < length (fieldseq (form m))"
      and "focus (form (fst (Update spec_engine m (KeyMsg KeyEnter)))) \<noteq> focus (form m)
         \<or> terminal (form (fst (Update spec_engine m (KeyMsg KeyEnter)))) \<noteq> terminal (form m)"
    using that advance_focus_moves [of "form m"]
    by (auto simp: Update_enter_engine simp del: Update.simps split: if_splits)
  have rejected: "focus (form (fst (Update spec_engine m (KeyMsg KeyEnter)))) = focus (form m)
      \<and> terminal (form (fst (Update spec_engine m (KeyMsg KeyEnter)))) = active
      \<and> field_error (fieldseq (form (fst (Update spec_engine m (KeyMsg KeyEnter)))) ! focus (form m))
          = Some err"
    if "focus (form m) < length (fieldseq (form m))" and "terminal (form m) = active"
      and "validate (fieldseq (form m) ! focus (form m)) = Some err"
    using that advance_rejected [of "form m" err]
    by (simp add: Update_enter_engine del: Update.simps)
  from first only_if rejected show ?thesis by blast
qed

text \<open>
  The amended C2 at the initial model, where the advance moves the focus and the title
  validates, and at the model with a required title, where the advance is rejected.
\<close>

theorem advance_only_if_valid_witness:
  "focus (form (NewModel spec_engine)) < length (fieldseq (form (NewModel spec_engine)))
   \<and> focus (form (fst (Update spec_engine (NewModel spec_engine) (KeyMsg KeyEnter))))
       \<noteq> focus (form (NewModel spec_engine))
   \<and> validate (fieldseq (form (NewModel spec_engine)) ! focus (form (NewModel spec_engine))) = None
   \<and> focus (form (title_required spec_engine)) < length (fieldseq (form (title_required spec_engine)))
   \<and> terminal (form (title_required spec_engine)) = active
   \<and> validate (fieldseq (form (title_required spec_engine)) ! focus (form (title_required spec_engine)))
       = Some ''required''
   \<and> focus (form title_rejected) = 0
   \<and> terminal (form title_rejected) = active
   \<and> field_error (fieldseq (form title_rejected) ! 0) = Some ''required''"
proof -
  let ?n = "NewModel spec_engine" and ?t = "title_required spec_engine"
  have n1: "focus (form ?n) < length (fieldseq (form ?n))"
    using NewModel_engine_form by simp
  have n2: "focus (form (fst (Update spec_engine ?n (KeyMsg KeyEnter)))) \<noteq> focus (form ?n)"
    using advance_only_if_valid [of ?n] NewModel_engine_form by simp
  have n3: "validate (fieldseq (form ?n) ! focus (form ?n)) = None"
    using advance_only_if_valid [of ?n] n1 n2 by blast
  have t1: "focus (form ?t) < length (fieldseq (form ?t))"
    using title_required_form by simp
  have t2: "terminal (form ?t) = active"
    using title_required_form by simp
  have t3: "validate (fieldseq (form ?t) ! focus (form ?t)) = Some ''required''"
    using title_required_form by simp
  have t4: "focus (form title_rejected) = focus (form ?t)
      \<and> terminal (form title_rejected) = active
      \<and> field_error (fieldseq (form title_rejected) ! focus (form ?t)) = Some ''required''"
    unfolding title_rejected_def
    using advance_only_if_valid [of ?t "''required''"] t1 t2 t3 by blast
  from n1 n2 n3 t1 t2 t3 t4 title_required_form show ?thesis by simp
qed

subsection \<open>Exit status after a cancellation\<close>

text \<open>
  C3 requires that a cancelled run does not exit with status 0 as if a submission had
  succeeded. At the run in which the operator types two characters and presses escape,
  the process exits with status 0 and prints the key and address of a created issue: its
  whole result is the result of the run in which the form is completed with the same two
  characters as its title.
\<close>

theorem cancel_exits_like_success:
  "map_option exit (main (demo_env cancel_events) spec_engine) = Some (Exited 0)
   \<and> map_option stdout (main (demo_env cancel_events) spec_engine)
       = Some (''OPS-1: https://jira.example.org/rest/api/2/issue/1'' @ nl)
   \<and> main (demo_env cancel_events) spec_engine = main (demo_env short_events) spec_engine"
  using run_cancel_demo run_short
  by (auto simp add: main_def load_demo Run_def demo_env_sel spec_engine_def demo_config_def)

subsection \<open>Resizing\<close>

text \<open>
  C4, as the specification states it, fails at the initial model: after a resize to 200
  columns the stored width is 155, not the maximum render width of 160.
\<close>

theorem resize_width_below_max:
  "width (fst (Update spec_engine (NewModel spec_engine) (WindowSizeMsg 200 50))) = 155
   \<and> width (fst (Update spec_engine (NewModel spec_engine) (WindowSizeMsg 200 50))) \<noteq> maxWidth"
  by (simp add: process_form_keeps NewModel_def go_min_def maxWidth_def frame_size_Base
      word_sless_alt)

text \<open>
  C4, amended: for every resize to a width above the maximum render width, the stored
  width is that maximum less the horizontal frame of the base style, which is 155 with
  the styles of \<^verbatim>\<open>NewStyles\<close>, whatever the form library does; the model's own state
  field is unchanged, and the form (field values and terminal flag) is unchanged.
\<close>

theorem resize_stores_max_less_frame:
  "maxWidth <s w \<Longrightarrow> styles m = NewStyles r \<Longrightarrow>
     width (fst (Update H m (WindowSizeMsg w h)))
       = maxWidth - GetHorizontalFrameSize (Base (styles m))
     \<and> width (fst (Update H m (WindowSizeMsg w h))) = 155
     \<and> state (fst (Update H m (WindowSizeMsg w h))) = state m
     \<and> form (fst (Update spec_engine n (WindowSizeMsg w h))) = form n"
  by (simp add: process_form_keeps process_form_engine go_min_above frame_size_Base)
     (simp add: maxWidth_def)

text \<open>The amended C4 at the initial model and a resize to 200 columns.\<close>

theorem resize_stores_max_less_frame_witness:
  "maxWidth <s (200 :: go_int)
   \<and> styles (NewModel spec_engine) = NewStyles DefaultRenderer
   \<and> width (fst (Update spec_engine (NewModel spec_engine) (WindowSizeMsg 200 50))) = 155
   \<and> state (fst (Update spec_engine (NewModel spec_engine) (WindowSizeMsg 200 50)))
       = state (NewModel spec_engine)
   \<and> form (fst (Update spec_engine (NewModel spec_engine) (WindowSizeMsg 200 50)))
       = form (NewModel spec_engine)"
proof -
  have h1: "maxWidth <s (200 :: go_int)"
    by (simp add: maxWidth_def word_sless_alt)
  have h2: "styles (NewModel spec_engine) = NewStyles DefaultRenderer"
    by (simp add: NewModel_def)
  from resize_stores_max_less_frame [OF h1 h2, of spec_engine 50 "NewModel spec_engine"] h1 h2
  show ?thesis by blast
qed

subsection \<open>The terminal flag\<close>

text \<open>
  C5: once the form's flag is \<open>completed\<close> or \<open>cancelled\<close>, no sequence of events
  passed through \<^verbatim>\<open>Update\<close> changes the form, neither a field value nor the flag, so
  the flag never returns to \<open>active\<close> and never goes from one terminal value to the
  other; the flag changes only out of \<open>active\<close>. A cancellation key ends the event loop
  with the model as it was, so no later event is applied.
\<close>

theorem terminal_flag_absorbing:
  "(terminal (form m) \<noteq> active \<longrightarrow>
      form (foldl (\<lambda>m e. fst (Update spec_engine m e)) m es) = form m)
   \<and> (terminal (form (fst (Update spec_engine m e))) \<noteq> terminal (form m) \<longrightarrow>
        terminal (form m) = active)
   \<and> (k = KeyEsc \<or> k = KeyCtrlC \<longrightarrow> run spec_engine m (KeyMsg k # es) = Some m)"
proof -
  have one: "form (fst (Update spec_engine n e')) = form n"
    if "terminal (form n) \<noteq> active" for n e'
    using that Update_engine_form [of n e'] by auto
  have many: "terminal (form n) \<noteq> active \<Longrightarrow>
      form (foldl (\<lambda>m e. fst (Update spec_engine m e)) n es) = form n" for n
  proof (induction es arbitrary: n)
    case Nil
    then show ?case by simp
  next
    case (Cons e' es)
    have same: "form (fst (Update spec_engine n e')) = form n"
      using one Cons.prems by simp
    then have "terminal (form (fst (Update spec_engine n e'))) \<noteq> active"
      using Cons.prems by simp
    from Cons.IH [OF this] same show ?case by simp
  qed
  have only_from_active: "terminal (form m) = active"
    if "terminal (form (fst (Update spec_engine m e))) \<noteq> terminal (form m)"
    using that one [of m e] by (cases "terminal (form m) = active") auto
  have stop: "run spec_engine m (KeyMsg k # es) = Some m" if "k = KeyEsc \<or> k = KeyCtrlC"
    using that by auto
  from many only_from_active stop show ?thesis by blast
qed

text \<open>
  C5 at a model whose form is cancelled, at the completing advance from the body field,
  and at an escape key followed by more events.
\<close>

theorem terminal_flag_absorbing_witness:
  "terminal (form was_cancelled) \<noteq> active
   \<and> form (foldl (\<lambda>m e. fst (Update spec_engine m e)) was_cancelled
        (typing ''x'' @ [KeyMsg KeyEnter])) = form was_cancelled
   \<and> terminal (form (fst (Update spec_engine at_body (KeyMsg KeyEnter)))) \<noteq> terminal (form at_body)
   \<and> terminal (form at_body) = active
   \<and> run spec_engine (NewModel spec_engine) (KeyMsg KeyEsc # typing ''x'')
       = Some (NewModel spec_engine)"
proof -
  have a: "terminal (form was_cancelled) \<noteq> active"
    by (simp add: was_cancelled_def)
  have b: "terminal (form (fst (Update spec_engine at_body (KeyMsg KeyEnter))))
      \<noteq> terminal (form at_body)"
    by (simp add: at_body_def NewModel_def engine_defs)
  from terminal_flag_absorbing [of was_cancelled "typing ''x'' @ [KeyMsg KeyEnter]"] a
  have a1: "form (foldl (\<lambda>m e. fst (Update spec_engine m e)) was_cancelled
        (typing ''x'' @ [KeyMsg KeyEnter])) = form was_cancelled" by blast
  from terminal_flag_absorbing [of at_body "[]" "KeyMsg KeyEnter"] b
  have b1: "terminal (form at_body) = active" by blast
  from terminal_flag_absorbing [of "NewModel spec_engine" "typing ''x''" OtherMsg KeyEsc]
  have c: "run spec_engine (NewModel spec_engine) (KeyMsg KeyEsc # typing ''x'')
       = Some (NewModel spec_engine)" by blast
  from a a1 b b1 c show ?thesis by blast
qed

subsection \<open>The happy path\<close>

text \<open>
  C6: from the initial model, typing the title \<^verbatim>\<open>Bug in login\<close>, advancing, typing
  the body \<^verbatim>\<open>Steps: ...\<close> and advancing again ends the event loop in state
  \<open>completed\<close> with these two texts as the field values.
\<close>

theorem happy_path_completes:
  "map_option (\<lambda>m. (terminal (form m), map buffer (fieldseq (form m))))
     (run spec_engine (NewModel spec_engine) happy_events)
   = Some (completed, [''Bug in login'', ''Steps: ...''])"
  using run_happy by auto

subsection \<open>The view\<close>

text \<open>
  C7: when the form reports a validation error, the view is the base style's rendering
  of an error boundary that shows the concatenated error messages, the form, and an
  error boundary with empty text; when it reports none, of the normal boundary with the
  title, the form, and the normal boundary with the key help. The error boundary is
  drawn with the error header style, whose foreground is red, and filled in red.
\<close>

theorem View_error_header_footer:
  "(form_Errors H (form m) \<noteq> [] \<longrightarrow>
      View L H m = Render L (Base (styles m))
        (appErrorBoundaryView L m (concat (form_Errors H (form m))) @ nl
         @ form_View H (form m) @ nl @ nl @ appErrorBoundaryView L m []))
   \<and> (form_Errors H (form m) = [] \<longrightarrow>
      View L H m = Render L (Base (styles m))
        (appBoundaryView L m ''Create a JIRA Ticket'' @ nl
         @ form_View H (form m) @ nl @ nl @ appBoundaryView L m (form_ShortHelp H (form m))))
   \<and> appErrorBoundaryView L m text =
       PlaceHorizontal L (width m) Left (Render L (ErrorHeaderText (styles m)) text)
         [WithWhitespaceChars ''/'', WithWhitespaceForeground red]
   \<and> foreground (ErrorHeaderText (NewStyles r)) = Some red"
  by (simp add: View_def errorView_concat appErrorBoundaryView_def NewStyles_def Padding_def
      NewStyle_def)

text \<open>C7 at the model whose required title was left empty, and at the initial model.\<close>

theorem View_error_header_footer_witness:
  "form_Errors spec_engine (form title_rejected) \<noteq> []
   \<and> View plain_lipgloss spec_engine title_rejected =
       ''required'' @ nl @ ''Summary: '' @ nl @ ''Description: '' @ nl @ nl @ nl
   \<and> form_Errors spec_engine (form (NewModel spec_engine)) = []
   \<and> View plain_lipgloss spec_engine (NewModel spec_engine) =
       ''Create a JIRA Ticket'' @ nl @ ''Summary: '' @ nl @ ''Description: '' @ nl @ nl @ nl
       @ ''enter next''"
proof -
  have e1: "form_Errors spec_engine (form title_rejected) = [''required'']"
    using title_rejected_form by (simp add: spec_engine_def)
  have v1: "form_View spec_engine (form title_rejected)
      = ''Summary: '' @ nl @ ''Description: '' @ nl"
    using title_rejected_form by (simp add: spec_engine_def)
  have e2: "form_Errors spec_engine (form (NewModel spec_engine)) = []"
    by (simp add: NewModel_def engine_defs)
  have v2: "form_View spec_engine (form (NewModel spec_engine))
      = ''Summary: '' @ nl @ ''Description: '' @ nl"
    by (simp add: NewModel_def engine_defs fields_view_def)
  have h2: "form_ShortHelp spec_engine (form (NewModel spec_engine)) = ''enter next''"
    by (simp add: spec_engine_def)
  from View_error_header_footer [of spec_engine title_rejected plain_lipgloss] e1 v1
  have a: "View plain_lipgloss spec_engine title_rejected =
       ''required'' @ nl @ ''Summary: '' @ nl @ ''Description: '' @ nl @ nl @ nl"
    by (simp add: plain_lipgloss_def appErrorBoundaryView_def)
  from View_error_header_footer [of spec_engine "NewModel spec_engine" plain_lipgloss] e2 v2 h2
  have b: "View plain_lipgloss spec_engine (NewModel spec_engine) =
       ''Create a JIRA Ticket'' @ nl @ ''Summary: '' @ nl @ ''Description: '' @ nl @ nl @ nl
       @ ''enter next''"
    by (simp add: plain_lipgloss_def appBoundaryView_def)
  from a b e1 e2 show ?thesis by simp
qed

subsection \<open>The cancellation key q\<close>




subsection \<open>The created issue\<close>

text \<open>
  C10: whatever the surroundings, the operator's events and the form library, every
  issue that \<^verbatim>\<open>main\<close> submits has the type name \<^verbatim>\<open>Bug\<close>, the project key of the
  loaded settings and their custom fields, unchanged.
\<close>

theorem issue_type_project_fields:
  "main E H = Some r \<Longrightarrow> (client, i) \<in> set (submitted r) \<Longrightarrow>
   \<exists>c fs. load E = Inr c \<and> Fields i = Some fs \<and> Name (Type fs) = ''Bug''
     \<and> project_Key (Project fs) = cfg_Project (CreateIssue c)
     \<and> Unknowns fs = CustomFields (CreateIssue c)"
  by (auto simp: main_def Run_def oh_no_def Let_def split: sum.splits option.splits)

text \<open>C10 at the run of the happy path.\<close>

theorem issue_type_project_fields_witness:
  "\<exists>r client i fs. main (demo_env happy_events) spec_engine = Some r
     \<and> (client, i) \<in> set (submitted r)
     \<and> Fields i = Some fs \<and> Name (Type fs) = ''Bug''
     \<and> project_Key (Project fs) = ''OPS''
     \<and> Unknowns fs = [''customfield_10010'' \<mapsto> AString ''triage'']"
proof -
  from run_happy obtain m where m: "run spec_engine (NewModel spec_engine) happy_events = Some m"
    by blast
  define client where "client = \<lparr>transport = \<lparr>bat_Username = ''ada'', bat_Password = ''token''\<rparr>,
    baseURL = ''https://jira.example.org''\<rparr>"
  obtain r i where r: "main (demo_env happy_events) spec_engine = Some r"
    and sub: "submitted r = [(client, i)]"
    using m by (simp add: main_def load_demo Run_def demo_env_sel demo_config_def client_def)
  have mem: "(client, i) \<in> set (submitted r)"
    using sub by simp
  from issue_type_project_fields [OF r mem]
  obtain c fs where c: "load (demo_env happy_events) = Inr c"
    and f: "Fields i = Some fs" and n: "Name (Type fs) = ''Bug''"
    and p: "project_Key (Project fs) = cfg_Project (CreateIssue c)"
    and u: "Unknowns fs = CustomFields (CreateIssue c)" by blast
  from c have c_eq: "c = demo_config"
    by (simp add: load_demo)
  have p1: "project_Key (Project fs) = ''OPS''"
    using p c_eq by (simp add: demo_config_def)
  have u1: "Unknowns fs = [''customfield_10010'' \<mapsto> AString ''triage'']"
    using u c_eq by (simp add: demo_config_def)
  from r mem f n p1 u1 show ?thesis by blast
qed

end
